theory Spec2Isabelle
  imports Main "HOL-Library.Word"
begin

unbundle bit_operations_syntax

section \<open>The image and its fixed parameters\<close>

text \<open>
  The file system of \<^verbatim>\<open>src/codes/module.cpp\<close> lives in one buffer \<^verbatim>\<open>char* memory\<close> of
  \<^verbatim>\<open>MEMORY_SIZE\<close> bytes, which the code reinterprets in place as \<^verbatim>\<open>SuperBlock\<close>,
  \<^verbatim>\<open>Inode\<close>, \<^verbatim>\<open>DirectoryEntry\<close> and \<^verbatim>\<open>unsigned int\<close> arrays. Every such access is to a
  4-byte aligned \<^verbatim>\<open>unsigned int\<close>, or to a whole aligned run of bytes (a 28-byte name, a
  1024-byte block). The image is therefore modelled as an array of 32-bit cells: cell \<open>k\<close>
  holds the bytes \<open>4k .. 4k+3\<close> of the buffer. Where bytes are looked at (names, the output
  of \<^verbatim>\<open>cat\<close>) a cell is read in little-endian order.

  Cells from \<open>262144\<close> on lie outside the buffer. The C++ program has undefined behaviour
  when it reaches them; the model is total and simply reads or writes the cell.

  Layout of an inode slot. The slots are \<^verbatim>\<open>INODE_SIZE = 64\<close> bytes apart. The model
  gives \<^verbatim>\<open>struct Inode\<close> the layout it has when \<^verbatim>\<open>time_t\<close> is 4 bytes wide, where the
  structure (60 bytes) fits its slot: cells 0 and 1 are type and size, cells 2 and 3 the two
  time stamps, cells 4 to 13 the ten direct addresses and cell 14 the indirect address.
  Debug lines written to \<^verbatim>\<open>std::cout\<close> by the allocators are not modelled.
\<close>

type_synonym u32 = "32 word"
type_synonym byte = "8 word"
type_synonym image = "nat \<Rightarrow> u32"

abbreviation BLOCK_SIZE :: u32 where "BLOCK_SIZE \<equiv> 1024"
abbreviation TOTAL_BLOCKS :: u32 where "TOTAL_BLOCKS \<equiv> 1024"
abbreviation MAX_INODES :: u32 where "MAX_INODES \<equiv> 128"
abbreviation INODE_SIZE :: u32 where "INODE_SIZE \<equiv> 64"
abbreviation FIRST_DATA_BLOCK :: u32 where "FIRST_DATA_BLOCK \<equiv> 9"
abbreviation DIRECT_BLOCKS :: nat where "DIRECT_BLOCKS \<equiv> 10"
abbreviation MAX_FILENAME_LENGTH :: nat where "MAX_FILENAME_LENGTH \<equiv> 28"
abbreviation CELLS_PER_BLOCK :: nat where "CELLS_PER_BLOCK \<equiv> 256"
abbreviation ENTRIES_PER_BLOCK :: nat where "ENTRIES_PER_BLOCK \<equiv> 32"
abbreviation ENTRY_CELLS :: nat where "ENTRY_CELLS \<equiv> 8"

text \<open>
  The state of a \<^verbatim>\<open>FileSystem\<close> object. \<open>clock\<close> and \<open>ticks\<close> stand for the environment's
  \<^verbatim>\<open>time(nullptr)\<close>: the \<open>n\<close>-th call returns \<open>clock n\<close>.
\<close>

record filesystem =
  memory :: image
  currentInodeNumber :: u32
  currentPath :: string
  clock :: "nat \<Rightarrow> u32"
  ticks :: nat

definition time_now :: "filesystem \<Rightarrow> u32 \<times> filesystem" where
  "time_now fs = (clock fs (ticks fs), fs\<lparr>ticks := Suc (ticks fs)\<rparr>)"

definition rd :: "filesystem \<Rightarrow> nat \<Rightarrow> u32" where
  "rd fs a = memory fs a"

definition wr :: "nat \<Rightarrow> u32 \<Rightarrow> filesystem \<Rightarrow> filesystem" where
  "wr a v fs = fs\<lparr>memory := (memory fs)(a := v)\<rparr>"

text \<open>\<^verbatim>\<open>memory + blockNum * BLOCK_SIZE\<close>: the product is an \<^verbatim>\<open>unsigned int\<close> and wraps.\<close>

definition block_cell :: "u32 \<Rightarrow> nat" where
  "block_cell blockNum = unat (blockNum * BLOCK_SIZE) div 4"

text \<open>\<^verbatim>\<open>memory + BLOCK_SIZE + inodeNum * INODE_SIZE\<close>.\<close>

definition inode_cell :: "u32 \<Rightarrow> nat" where
  "inode_cell inodeNum = unat (BLOCK_SIZE + inodeNum * INODE_SIZE) div 4"

text \<open>\<^verbatim>\<open>memset(memory + blockNum * BLOCK_SIZE, 0, BLOCK_SIZE)\<close>.\<close>

definition memset_block :: "u32 \<Rightarrow> filesystem \<Rightarrow> filesystem" where
  "memset_block blockNum fs =
     fs\<lparr>memory := (\<lambda>a. if block_cell blockNum \<le> a \<and> a < block_cell blockNum + CELLS_PER_BLOCK
                         then 0 else memory fs a)\<rparr>"

text \<open>
  \<^verbatim>\<open>memcpy\<close> of a structure into the buffer, and structure assignment through a pointer
  into the buffer: the cells \<open>c, c + 1, ...\<close> take the values \<open>vs\<close>.
\<close>

definition wr_cells :: "nat \<Rightarrow> u32 list \<Rightarrow> filesystem \<Rightarrow> filesystem" where
  "wr_cells c vs fs =
     fs\<lparr>memory := (\<lambda>a. if c \<le> a \<and> a < c + length vs then vs ! (a - c) else memory fs a)\<rparr>"

subsection \<open>Superblock\<close>

text \<open>The eight \<^verbatim>\<open>unsigned int\<close> fields of \<^verbatim>\<open>struct SuperBlock\<close> are cells 0 to 7.\<close>

definition sb_magic :: "filesystem \<Rightarrow> u32" where "sb_magic fs = rd fs 0"
definition sb_blockSize :: "filesystem \<Rightarrow> u32" where "sb_blockSize fs = rd fs 1"
definition sb_totalBlocks :: "filesystem \<Rightarrow> u32" where "sb_totalBlocks fs = rd fs 2"
definition sb_freeBlocks :: "filesystem \<Rightarrow> u32" where "sb_freeBlocks fs = rd fs 3"
definition sb_maxInodes :: "filesystem \<Rightarrow> u32" where "sb_maxInodes fs = rd fs 4"
definition sb_freeInodes :: "filesystem \<Rightarrow> u32" where "sb_freeInodes fs = rd fs 5"
definition sb_firstFreeBlock :: "filesystem \<Rightarrow> u32" where "sb_firstFreeBlock fs = rd fs 6"
definition sb_firstFreeInode :: "filesystem \<Rightarrow> u32" where "sb_firstFreeInode fs = rd fs 7"

subsection \<open>Block allocator\<close>

definition allocateBlock :: "filesystem \<Rightarrow> u32 \<times> filesystem" where
  "allocateBlock fs =
     (if sb_freeBlocks fs = 0 \<or> sb_firstFreeBlock fs = 0 then (0, fs)
      else
        let blockNum = sb_firstFreeBlock fs in
        if blockNum \<ge> TOTAL_BLOCKS then (0, fs)
        else
          let nextFree = rd fs (block_cell blockNum);
              fs1 = wr 6 nextFree fs;
              fs2 = wr 3 (sb_freeBlocks fs1 - 1) fs1;
              fs3 = memset_block blockNum fs2
          in (blockNum, fs3))"

definition deallocateBlock :: "u32 \<Rightarrow> filesystem \<Rightarrow> filesystem" where
  "deallocateBlock blockNum fs =
     (if blockNum < FIRST_DATA_BLOCK \<or> blockNum \<ge> TOTAL_BLOCKS then fs
      else
        let fs1 = wr (block_cell blockNum) (sb_firstFreeBlock fs) fs;
            fs2 = wr 6 blockNum fs1
        in wr 3 (sb_freeBlocks fs2 + 1) fs2)"

subsection \<open>Inodes\<close>

record inode =
  itype :: u32
  isize :: u32
  creationTime :: u32
  modificationTime :: u32
  blockAddresses :: "u32 list"
  indirectBlock :: u32

definition zero_inode :: inode where
  "zero_inode = \<lparr>itype = 0, isize = 0, creationTime = 0, modificationTime = 0,
                 blockAddresses = replicate DIRECT_BLOCKS 0, indirectBlock = 0\<rparr>"

definition readInode :: "filesystem \<Rightarrow> u32 \<Rightarrow> inode" where
  "readInode fs inodeNum =
     (if inodeNum \<ge> MAX_INODES then zero_inode
      else
        let c = inode_cell inodeNum in
        \<lparr>itype = rd fs c, isize = rd fs (c + 1),
         creationTime = rd fs (c + 2), modificationTime = rd fs (c + 3),
         blockAddresses = map (\<lambda>k. rd fs (c + 4 + k)) [0..<DIRECT_BLOCKS],
         indirectBlock = rd fs (c + 14)\<rparr>)"

text \<open>The cells of a \<^verbatim>\<open>struct Inode\<close> in the order of its fields.\<close>

definition inode_cells :: "inode \<Rightarrow> u32 list" where
  "inode_cells ino =
     [itype ino, isize ino, creationTime ino, modificationTime ino] @
     map (\<lambda>k. blockAddresses ino ! k) [0..<DIRECT_BLOCKS] @ [indirectBlock ino]"

definition writeInode :: "u32 \<Rightarrow> inode \<Rightarrow> filesystem \<Rightarrow> filesystem" where
  "writeInode inodeNum ino fs =
     (if inodeNum \<ge> MAX_INODES then fs
      else wr_cells (inode_cell inodeNum) (inode_cells ino) fs)"

definition allocateInode :: "filesystem \<Rightarrow> u32 \<times> filesystem" where
  "allocateInode fs =
     (if sb_freeInodes fs = 0 \<or> sb_firstFreeInode fs = 0 then (MAX_INODES, fs)
      else
        let inodeNum = sb_firstFreeInode fs;
            c = inode_cell inodeNum;
            fs1 = wr 7 (rd fs (c + 14)) fs;
            fs2 = wr 5 (sb_freeInodes fs1 - 1) fs1;
            fs3 = wr c 0 fs2;
            fs4 = wr (c + 1) 0 fs3;
            (t, fs5) = time_now fs4;
            fs6 = wr (c + 2) t fs5;
            fs7 = wr (c + 3) (rd fs6 (c + 2)) fs6;
            fs8 = wr_cells (c + 4) (replicate DIRECT_BLOCKS 0) fs7;
            fs9 = wr (c + 14) 0 fs8
        in (inodeNum, fs9))"

definition deallocateInode :: "u32 \<Rightarrow> filesystem \<Rightarrow> filesystem" where
  "deallocateInode inodeNum fs =
     (if inodeNum \<ge> MAX_INODES then fs
      else
        let fs1 = wr (inode_cell inodeNum + 14) (sb_firstFreeInode fs) fs;
            fs2 = wr 7 inodeNum fs1
        in wr 5 (sb_freeInodes fs2 + 1) fs2)"

subsection \<open>Directory store\<close>

text \<open>
  Bytes of a cell in buffer order, and back. A \<^verbatim>\<open>DirectoryEntry\<close> is eight cells: seven
  for \<^verbatim>\<open>char name[28]\<close> and one for \<^verbatim>\<open>inodeNumber\<close>.
\<close>

definition cell_bytes :: "u32 \<Rightarrow> byte list" where
  "cell_bytes w = [ucast w, ucast (drop_bit 8 w), ucast (drop_bit 16 w), ucast (drop_bit 24 w)]"

definition bytes_cell :: "byte list \<Rightarrow> u32" where
  "bytes_cell bs =
     ucast (bs ! 0) OR push_bit 8 (ucast (bs ! 1)) OR
     push_bit 16 (ucast (bs ! 2)) OR push_bit 24 (ucast (bs ! 3))"

text \<open>
  \<^verbatim>\<open>name.c_str()\<close> seen as a C string: the bytes up to the first NUL. \<^verbatim>\<open>name.length()\<close>
  is the length of the whole \<^verbatim>\<open>std::string\<close>.
\<close>

definition c_str :: "string \<Rightarrow> byte list" where
  "c_str s = takeWhile (\<lambda>b. b \<noteq> 0) (map of_char s)"

text \<open>
  \<^verbatim>\<open>strncpy(newEntry.name, name.c_str(), 27); newEntry.name[27] = '\0'\<close>: at most 27 bytes
  of the C string, padded with NUL to 28 bytes.
\<close>

definition entry_name :: "string \<Rightarrow> byte list" where
  "entry_name s =
     (let bs = take (MAX_FILENAME_LENGTH - 1) (c_str s)
      in bs @ replicate (MAX_FILENAME_LENGTH - length bs) 0)"

record DirectoryEntry =
  name :: "byte list"
  inodeNumber :: u32

definition entry_cell :: "u32 \<Rightarrow> nat \<Rightarrow> nat" where
  "entry_cell blockNum j = block_cell blockNum + ENTRY_CELLS * j"

definition entry_inodeNumber :: "filesystem \<Rightarrow> u32 \<Rightarrow> nat \<Rightarrow> u32" where
  "entry_inodeNumber fs blockNum j = rd fs (entry_cell blockNum j + 7)"

definition read_entry :: "filesystem \<Rightarrow> u32 \<times> nat \<Rightarrow> DirectoryEntry" where
  "read_entry fs slot =
     (case slot of (blockNum, j) \<Rightarrow>
        \<lparr>name = concat (map (\<lambda>k. cell_bytes (rd fs (entry_cell blockNum j + k))) [0..<7]),
         inodeNumber = entry_inodeNumber fs blockNum j\<rparr>)"

text \<open>\<^verbatim>\<open>*entry = newEntry\<close>.\<close>

definition entry_cells :: "DirectoryEntry \<Rightarrow> u32 list" where
  "entry_cells e =
     map (\<lambda>k. bytes_cell (take 4 (drop (4 * k) (name e)))) [0..<7] @ [inodeNumber e]"

definition write_entry :: "u32 \<Rightarrow> nat \<Rightarrow> DirectoryEntry \<Rightarrow> filesystem \<Rightarrow> filesystem" where
  "write_entry blockNum j e fs = wr_cells (entry_cell blockNum j) (entry_cells e) fs"

text \<open>
  \<^verbatim>\<open>strcmp(entry.name, s) == 0\<close>. The comparison reads the entry as a C string. A name with
  no NUL in its 28 bytes makes \<^verbatim>\<open>strcmp\<close> run on into \<^verbatim>\<open>inodeNumber\<close>; the model follows
  it to the end of the entry (past it the source reads outside the object).
\<close>

definition strcmp_eq :: "DirectoryEntry \<Rightarrow> byte list \<Rightarrow> bool" where
  "strcmp_eq e s = (takeWhile (\<lambda>b. b \<noteq> 0) (name e @ cell_bytes (inodeNumber e)) = s)"

text \<open>
  The block numbers a directory (or file) inode addresses, in the order every scan of the
  source visits them: the nonzero direct addresses in index order and then, if the indirect
  address is nonzero, the nonzero cells of the indirect block in index order.
\<close>

definition indirect_slot :: "filesystem \<Rightarrow> u32 \<Rightarrow> nat \<Rightarrow> u32" where
  "indirect_slot fs indirect i = rd fs (block_cell indirect + i)"

definition direct_blocks :: "inode \<Rightarrow> u32 list" where
  "direct_blocks ino = filter (\<lambda>b. b \<noteq> 0) (map (\<lambda>i. blockAddresses ino ! i) [0..<DIRECT_BLOCKS])"

definition indirect_blocks :: "filesystem \<Rightarrow> inode \<Rightarrow> u32 list" where
  "indirect_blocks fs ino =
     (if indirectBlock ino \<noteq> 0
      then filter (\<lambda>b. b \<noteq> 0) (map (indirect_slot fs (indirectBlock ino)) [0..<CELLS_PER_BLOCK])
      else [])"

definition block_slots :: "u32 \<Rightarrow> (u32 \<times> nat) list" where
  "block_slots blockNum = map (Pair blockNum) [0..<ENTRIES_PER_BLOCK]"

definition dir_slots :: "filesystem \<Rightarrow> inode \<Rightarrow> (u32 \<times> nat) list" where
  "dir_slots fs ino = concat (map block_slots (direct_blocks ino @ indirect_blocks fs ino))"

definition live_slot :: "filesystem \<Rightarrow> u32 \<times> nat \<Rightarrow> bool" where
  "live_slot fs slot = (entry_inodeNumber fs (fst slot) (snd slot) \<noteq> 0)"

definition readDirectoryEntries :: "filesystem \<Rightarrow> u32 \<Rightarrow> DirectoryEntry list" where
  "readDirectoryEntries fs inodeNum =
     (let ino = readInode fs inodeNum in
      if itype ino \<noteq> 1 then []
      else map (read_entry fs) (filter (live_slot fs) (dir_slots fs ino)))"

text \<open>
  \<^verbatim>\<open>findDirectoryEntry\<close> returns an \<^verbatim>\<open>int\<close>: the entry's \<^verbatim>\<open>unsigned int inodeNumber\<close>
  converted, or \<open>-1\<close>. The model keeps the 32 bits, so \<open>-1\<close> is the word \<open>0xFFFFFFFF\<close>.
\<close>

abbreviation NOT_FOUND :: u32 where "NOT_FOUND \<equiv> - 1"

definition findDirectoryEntry :: "filesystem \<Rightarrow> u32 \<Rightarrow> string \<Rightarrow> u32" where
  "findDirectoryEntry fs dirInodeNum s =
     (case find (\<lambda>e. strcmp_eq e (c_str s)) (readDirectoryEntries fs dirInodeNum) of
        Some e \<Rightarrow> inodeNumber e
      | None \<Rightarrow> NOT_FOUND)"

text \<open>
  \<^verbatim>\<open>addDirectoryEntry\<close>. \<open>commit_entry\<close> is the body of the two \<^verbatim>\<open>if (entry->inodeNumber == 0)\<close>
  branches. \<open>add_direct\<close> is the loop over the direct slots and \<open>add_indirect\<close> the loop over
  the cells of the indirect block; each returns \<open>Some r\<close> where the source returns \<open>r\<close> from
  inside the loop and \<open>None\<close> where the loop runs to its end.
\<close>

definition free_slot :: "filesystem \<Rightarrow> u32 \<Rightarrow> nat option" where
  "free_slot fs blockNum = find (\<lambda>j. entry_inodeNumber fs blockNum j = 0) [0..<ENTRIES_PER_BLOCK]"

definition commit_entry ::
  "u32 \<Rightarrow> inode \<Rightarrow> u32 \<Rightarrow> nat \<Rightarrow> DirectoryEntry \<Rightarrow> filesystem \<Rightarrow> filesystem" where
  "commit_entry dirInodeNum dirInode blockNum j newEntry fs =
     (let fs1 = write_entry blockNum j newEntry fs;
          (t, fs2) = time_now fs1
      in writeInode dirInodeNum
           (dirInode\<lparr>isize := isize dirInode + 32, modificationTime := t\<rparr>) fs2)"

fun add_direct ::
  "nat list \<Rightarrow> u32 \<Rightarrow> DirectoryEntry \<Rightarrow> inode \<Rightarrow> filesystem \<Rightarrow> bool option \<times> inode \<times> filesystem" where
  "add_direct [] dirInodeNum newEntry dirInode fs = (None, dirInode, fs)"
| "add_direct (i # is) dirInodeNum newEntry dirInode fs =
     (let (failed, dirInode1, fs1) =
            (if blockAddresses dirInode ! i = 0 then
               (let (newBlock, fs') = allocateBlock fs in
                if newBlock = 0 then (True, dirInode, fs')
                else
                  (let d = dirInode\<lparr>blockAddresses := (blockAddresses dirInode)[i := newBlock]\<rparr>
                   in (False, d, writeInode dirInodeNum d fs')))
             else (False, dirInode, fs))
      in if failed then (Some False, dirInode1, fs1)
         else
           (case free_slot fs1 (blockAddresses dirInode1 ! i) of
              Some j \<Rightarrow>
                (Some True, dirInode1,
                 commit_entry dirInodeNum dirInode1 (blockAddresses dirInode1 ! i) j newEntry fs1)
            | None \<Rightarrow> add_direct is dirInodeNum newEntry dirInode1 fs1))"

fun add_indirect ::
  "nat list \<Rightarrow> u32 \<Rightarrow> DirectoryEntry \<Rightarrow> inode \<Rightarrow> filesystem \<Rightarrow> bool option \<times> filesystem" where
  "add_indirect [] dirInodeNum newEntry dirInode fs = (None, fs)"
| "add_indirect (i # is) dirInodeNum newEntry dirInode fs =
     (let (failed, fs1) =
            (if indirect_slot fs (indirectBlock dirInode) i = 0 then
               (let (newBlock, fs') = allocateBlock fs in
                if newBlock = 0 then (True, fs')
                else (False, wr (block_cell (indirectBlock dirInode) + i) newBlock fs'))
             else (False, fs))
      in if failed then (Some False, fs1)
         else
           (let blockNum = indirect_slot fs1 (indirectBlock dirInode) i in
            case free_slot fs1 blockNum of
              Some j \<Rightarrow> (Some True, commit_entry dirInodeNum dirInode blockNum j newEntry fs1)
            | None \<Rightarrow> add_indirect is dirInodeNum newEntry dirInode fs1))"

definition addDirectoryEntry :: "u32 \<Rightarrow> string \<Rightarrow> u32 \<Rightarrow> filesystem \<Rightarrow> bool \<times> filesystem" where
  "addDirectoryEntry dirInodeNum s inodeNum fs =
     (if length s \<ge> MAX_FILENAME_LENGTH then (False, fs)
      else
        let dirInode = readInode fs dirInodeNum in
        if itype dirInode \<noteq> 1 then (False, fs)
        else
          let newEntry = \<lparr>name = entry_name s, inodeNumber = inodeNum\<rparr> in
          case add_direct [0..<DIRECT_BLOCKS] dirInodeNum newEntry dirInode fs of
            (Some r, dirInode1, fs1) \<Rightarrow> (r, fs1)
          | (None, dirInode1, fs1) \<Rightarrow>
              (let (failed, dirInode2, fs2) =
                     (if indirectBlock dirInode1 = 0 then
                        (let (indirect, fs') = allocateBlock fs1 in
                         if indirect = 0 then (True, dirInode1, fs')
                         else
                           (let d = dirInode1\<lparr>indirectBlock := indirect\<rparr>
                            in (False, d, writeInode dirInodeNum d fs')))
                      else (False, dirInode1, fs1))
               in if failed then (False, fs2)
                  else
                    (case add_indirect [0..<CELLS_PER_BLOCK] dirInodeNum newEntry dirInode2 fs2 of
                       (Some r, fs3) \<Rightarrow> (r, fs3)
                     | (None, fs3) \<Rightarrow> (False, fs3))))"

text \<open>
  \<^verbatim>\<open>removeDirectoryEntry\<close> scans the same slots and stops at the first live one whose name
  compares equal; nothing is written before that slot is found.
\<close>

definition removeDirectoryEntry :: "u32 \<Rightarrow> string \<Rightarrow> filesystem \<Rightarrow> bool \<times> filesystem" where
  "removeDirectoryEntry dirInodeNum s fs =
     (let dirInode = readInode fs dirInodeNum in
      if itype dirInode \<noteq> 1 then (False, fs)
      else
        case find (\<lambda>slot. live_slot fs slot \<and> strcmp_eq (read_entry fs slot) (c_str s))
                  (dir_slots fs dirInode) of
          Some (blockNum, j) \<Rightarrow>
            (let fs1 = wr (entry_cell blockNum j + 7) 0 fs;
                 (t, fs2) = time_now fs1
             in (True, writeInode dirInodeNum
                         (dirInode\<lparr>isize := isize dirInode - 32, modificationTime := t\<rparr>) fs2))
        | None \<Rightarrow> (False, fs))"

definition initializeDirectory :: "u32 \<Rightarrow> u32 \<Rightarrow> filesystem \<Rightarrow> filesystem" where
  "initializeDirectory dirInodeNum parentInodeNum fs =
     (let fs1 = snd (addDirectoryEntry dirInodeNum ''.'' dirInodeNum fs)
      in snd (addDirectoryEntry dirInodeNum ''..'' parentInodeNum fs1))"

subsection \<open>Initialisation\<close>

text \<open>
  \<^verbatim>\<open>initializeFileSystem\<close>, on a buffer the constructor has just allocated; \<open>clk\<close> is the
  environment's clock. \<open>format_image\<close> is its first part: the \<^verbatim>\<open>memset\<close>, the superblock
  and the two free lists. \<^verbatim>\<open>loadFileSystem\<close> then replaces the buffer by the backing file
  when there is one; the fresh image is the state when there is none.
\<close>

definition format_image :: "(nat \<Rightarrow> u32) \<Rightarrow> filesystem" where
  "format_image clk =
     (let fs0 = \<lparr>memory = (\<lambda>a. 0), currentInodeNumber = 0, currentPath = [], clock = clk, ticks = 0\<rparr>;
          fs1 = wr 0 0x12345678 fs0;
          fs2 = wr 1 BLOCK_SIZE fs1;
          fs3 = wr 2 TOTAL_BLOCKS fs2;
          fs4 = wr 3 (TOTAL_BLOCKS - FIRST_DATA_BLOCK) fs3;
          fs5 = wr 4 MAX_INODES fs4;
          fs6 = wr 5 (MAX_INODES - 1) fs5;
          fs7 = wr 6 FIRST_DATA_BLOCK fs6;
          fs8 = wr 7 1 fs7;
          fs9 = fold (\<lambda>i. wr (block_cell (of_nat i)) (of_nat i + 1))
                  [unat FIRST_DATA_BLOCK..<unat (TOTAL_BLOCKS - 1)] fs8;
          fs10 = wr (block_cell (TOTAL_BLOCKS - 1)) 0 fs9;
          fs11 = fold (\<lambda>i. wr (inode_cell (of_nat i) + 14) (of_nat i + 1))
                   [1..<unat (MAX_INODES - 1)] fs10
      in wr (inode_cell (MAX_INODES - 1) + 14) 0 fs11)"

definition initializeFileSystem :: "(nat \<Rightarrow> u32) \<Rightarrow> filesystem" where
  "initializeFileSystem clk =
     (let fs12 = format_image clk;
          (t, fs13) = time_now fs12;
          (rootBlock, fs14) = allocateBlock fs13;
          rootInode = \<lparr>itype = 1, isize = 0, creationTime = t, modificationTime = t,
                       blockAddresses = (replicate DIRECT_BLOCKS 0)[0 := rootBlock],
                       indirectBlock = 0\<rparr>;
          fs15 = writeInode 0 rootInode fs14;
          fs16 = initializeDirectory 0 0 fs15
      in fs16\<lparr>currentInodeNumber := 0, currentPath := ''/''\<rparr>)"

subsection \<open>Path resolver\<close>

text \<open>
  \<^verbatim>\<open>std::getline(ss, component, '/')\<close> until the stream is exhausted: the pieces between
  slashes, where a slash at the very end opens no further piece.
\<close>

function getlines :: "string \<Rightarrow> string list" where
  "getlines s =
     (if s = [] then []
      else takeWhile (\<lambda>c. c \<noteq> CHR ''/'') s #
           (case dropWhile (\<lambda>c. c \<noteq> CHR ''/'') s of [] \<Rightarrow> [] | _ # r \<Rightarrow> getlines r))"
  by pat_completeness auto
termination
proof (relation "measure length")
  fix s :: string and x r
  assume "s \<noteq> []" and d: "dropWhile (\<lambda>c. c \<noteq> CHR ''/'') s = x # r"
  have "length (dropWhile (\<lambda>c. c \<noteq> CHR ''/'') s) \<le> length s"
    by (rule length_dropWhile_le)
  then show "(r, s) \<in> measure length" by (simp add: d)
qed simp

declare getlines.simps [simp del]

definition parsePath :: "string \<Rightarrow> string list" where
  "parsePath path =
     filter (\<lambda>component. component \<noteq> [])
       (getlines (if path \<noteq> [] \<and> hd path = CHR ''/'' then tl path else path))"

text \<open>
  The loop of \<^verbatim>\<open>getInodeFromPath\<close>. \<^verbatim>\<open>inodeNum\<close> is an \<^verbatim>\<open>int\<close> in the source and takes every
  \<^verbatim>\<open>unsigned int inodeNumber\<close> it is assigned bit for bit; \<open>-1\<close> is the failure value.
\<close>

fun walk_components :: "filesystem \<Rightarrow> string list \<Rightarrow> u32 \<Rightarrow> u32" where
  "walk_components fs [] inodeNum = inodeNum"
| "walk_components fs (component # components) inodeNum =
     (if component = ''.'' then walk_components fs components inodeNum
      else if component = ''..'' then
        (if inodeNum = 0 then walk_components fs components inodeNum
         else
           (case find (\<lambda>e. strcmp_eq e (c_str ''..'')) (readDirectoryEntries fs inodeNum) of
              Some e \<Rightarrow> walk_components fs components (inodeNumber e)
            | None \<Rightarrow> NOT_FOUND))
      else
        (let nextInode = findDirectoryEntry fs inodeNum component in
         if nextInode = NOT_FOUND then NOT_FOUND
         else walk_components fs components nextInode))"

definition getInodeFromPath :: "filesystem \<Rightarrow> string \<Rightarrow> u32" where
  "getInodeFromPath fs path =
     (if path = [] then currentInodeNumber fs
      else walk_components fs (parsePath path)
             (if hd path = CHR ''/'' then 0 else currentInodeNumber fs))"

text \<open>\<^verbatim>\<open>path.find_last_of('/')\<close>: \<open>None\<close> is \<^verbatim>\<open>std::string::npos\<close>.\<close>

fun find_last_of :: "string \<Rightarrow> char \<Rightarrow> nat option" where
  "find_last_of [] c = None"
| "find_last_of (x # xs) c =
     (case find_last_of xs c of
        Some i \<Rightarrow> Some (Suc i)
      | None \<Rightarrow> if x = c then Some 0 else None)"

definition getParentInodeAndFilename :: "filesystem \<Rightarrow> string \<Rightarrow> u32 \<times> string" where
  "getParentInodeAndFilename fs path =
     (let (dirname, basename) =
            (case find_last_of path (CHR ''/'') of
               None \<Rightarrow> (''.'', path)
             | Some lastSlash \<Rightarrow>
                 if lastSlash = 0 then (''/'', drop 1 path)
                 else (take lastSlash path, drop (lastSlash + 1) path))
      in (getInodeFromPath fs dirname, basename))"

section \<open>Namespace operations\<close>

text \<open>
  Every command returns the line it prints last (the result the shell's user sees) and the
  new state.
\<close>

datatype message =
    NoMessage
  | ErrInvalidPath
  | ErrFileExists
  | ErrFileTooLarge
  | ErrNotEnoughFreeBlocks
  | ErrNoFreeInodes
  | ErrFailedToAllocateBlocks
  | ErrFailedToAllocateIndirectBlock
  | ErrFailedToAllocateIndirectDataBlock
  | ErrCouldNotAddDirectoryEntry
  | CreatedFile
  | ErrDirectoryExists
  | CreatedDirectory
  | ErrDirectoryNotFound
  | ErrNotADirectory
  | ErrDirectoryNotEmpty
  | ErrCouldNotRemoveDirectoryEntry
  | RemovedDirectory
  | ErrFileNotFound
  | ErrNotAFile
  | Contents "byte list"

subsection \<open>touch\<close>

text \<open>
  \<open>alloc_direct\<close> is the loop that fills \<^verbatim>\<open>inode.blockAddresses\<close>; its first result is
  \<^verbatim>\<open>allocationFailed\<close>. \<open>alloc_indirect\<close> is the loop that fills the indirect block; it
  returns \<open>Some i\<close> when the allocation for cell \<open>i\<close> fails. \<open>free_indirect_slots\<close> is the
  clean-up loop \<^verbatim>\<open>if (indirectBlockData[i] != 0) deallocateBlock(indirectBlockData[i])\<close>, which
  reads each cell of the indirect block when its turn comes.
\<close>

fun alloc_direct :: "nat list \<Rightarrow> inode \<Rightarrow> filesystem \<Rightarrow> bool \<times> inode \<times> filesystem" where
  "alloc_direct [] ino fs = (False, ino, fs)"
| "alloc_direct (i # is) ino fs =
     (let (newBlock, fs1) = allocateBlock fs in
      if newBlock = 0 then (True, ino, fs1)
      else alloc_direct is (ino\<lparr>blockAddresses := (blockAddresses ino)[i := newBlock]\<rparr>) fs1)"

fun alloc_indirect :: "nat list \<Rightarrow> u32 \<Rightarrow> filesystem \<Rightarrow> nat option \<times> filesystem" where
  "alloc_indirect [] indirect fs = (None, fs)"
| "alloc_indirect (i # is) indirect fs =
     (let (newBlock, fs1) = allocateBlock fs in
      if newBlock = 0 then (Some i, fs1)
      else alloc_indirect is indirect (wr (block_cell indirect + i) newBlock fs1))"

definition free_direct :: "inode \<Rightarrow> nat \<Rightarrow> filesystem \<Rightarrow> filesystem" where
  "free_direct ino n fs = fold (\<lambda>i. deallocateBlock (blockAddresses ino ! i)) [0..<n] fs"

definition free_direct_nonzero :: "inode \<Rightarrow> nat \<Rightarrow> filesystem \<Rightarrow> filesystem" where
  "free_direct_nonzero ino n fs =
     fold (\<lambda>i fs'. if blockAddresses ino ! i \<noteq> 0
                    then deallocateBlock (blockAddresses ino ! i) fs' else fs') [0..<n] fs"

definition free_indirect_slots :: "u32 \<Rightarrow> nat \<Rightarrow> filesystem \<Rightarrow> filesystem" where
  "free_indirect_slots indirect n fs =
     fold (\<lambda>i fs'. if indirect_slot fs' indirect i \<noteq> 0
                    then deallocateBlock (indirect_slot fs' indirect i) fs' else fs') [0..<n] fs"

text \<open>The tail of \<^verbatim>\<open>cmdTouch\<close> from \<^verbatim>\<open>writeInode(newInode, inode)\<close> on.\<close>

definition touch_commit ::
  "u32 \<Rightarrow> string \<Rightarrow> u32 \<Rightarrow> inode \<Rightarrow> nat \<Rightarrow> u32 \<Rightarrow> filesystem \<Rightarrow> message \<times> filesystem" where
  "touch_commit parentInode nm newInode ino directBlocks blocksNeeded fs =
     (let fs1 = writeInode newInode ino fs;
          (ok, fs2) = addDirectoryEntry parentInode nm newInode fs1
      in if \<not> ok then
           (let fs3 = free_direct ino directBlocks fs2;
                fs4 = (if indirectBlock ino \<noteq> 0
                       then deallocateBlock (indirectBlock ino)
                              (free_indirect_slots (indirectBlock ino)
                                 (unat (blocksNeeded - of_nat DIRECT_BLOCKS)) fs3)
                       else fs3)
            in (ErrCouldNotAddDirectoryEntry, deallocateInode newInode fs4))
         else (CreatedFile, fs2))"

definition cmdTouch :: "string \<Rightarrow> u32 \<Rightarrow> filesystem \<Rightarrow> message \<times> filesystem" where
  "cmdTouch filename sz fs =
     (let (parentInode, nm) = getParentInodeAndFilename fs filename in
      if parentInode = NOT_FOUND then (ErrInvalidPath, fs)
      else if findDirectoryEntry fs parentInode nm \<noteq> NOT_FOUND then (ErrFileExists, fs)
      else
        let blocksNeeded = (sz + BLOCK_SIZE - 1) div BLOCK_SIZE;
            maxBlocks = of_nat DIRECT_BLOCKS + BLOCK_SIZE div 4 in
        if blocksNeeded > maxBlocks then (ErrFileTooLarge, fs)
        else
          let indirectBlockNeeded = (if blocksNeeded > of_nat DIRECT_BLOCKS then 1 else 0) in
          if sb_freeBlocks fs < blocksNeeded + indirectBlockNeeded then (ErrNotEnoughFreeBlocks, fs)
          else
            let (newInode, fs1) = allocateInode fs in
            if newInode = MAX_INODES then (ErrNoFreeInodes, fs1)
            else
              let ino0 = (readInode fs1 newInode)\<lparr>itype := 0, isize := sz\<rparr>;
                  directBlocks = min (unat blocksNeeded) DIRECT_BLOCKS;
                  (allocationFailed, ino1, fs2) = alloc_direct [0..<directBlocks] ino0 fs1
              in
              if allocationFailed then
                (ErrFailedToAllocateBlocks,
                 deallocateInode newInode (free_direct_nonzero ino1 directBlocks fs2))
              else if blocksNeeded > of_nat DIRECT_BLOCKS then
                (let (indirect, fs3) = allocateBlock fs2 in
                 if indirect = 0 then
                   (ErrFailedToAllocateIndirectBlock,
                    deallocateInode newInode (free_direct ino1 directBlocks fs3))
                 else
                   (let ino2 = ino1\<lparr>indirectBlock := indirect\<rparr>;
                        indirectBlocks = unat (blocksNeeded - of_nat DIRECT_BLOCKS)
                    in case alloc_indirect [0..<indirectBlocks] indirect fs3 of
                         (Some i, fs4) \<Rightarrow>
                           (let fs5 = fold (\<lambda>j fs'. deallocateBlock (indirect_slot fs' indirect j) fs')
                                        [0..<i] fs4;
                                fs6 = deallocateBlock indirect fs5;
                                fs7 = free_direct ino2 directBlocks fs6
                            in (ErrFailedToAllocateIndirectDataBlock, deallocateInode newInode fs7))
                       | (None, fs4) \<Rightarrow>
                           touch_commit parentInode nm newInode ino2 directBlocks blocksNeeded fs4))
              else touch_commit parentInode nm newInode ino1 directBlocks blocksNeeded fs2)"

subsection \<open>mkdir and rmdir\<close>

definition cmdMkdir :: "string \<Rightarrow> filesystem \<Rightarrow> message \<times> filesystem" where
  "cmdMkdir dirname fs =
     (let (parentInode, nm) = getParentInodeAndFilename fs dirname in
      if parentInode = NOT_FOUND then (ErrInvalidPath, fs)
      else if findDirectoryEntry fs parentInode nm \<noteq> NOT_FOUND then (ErrDirectoryExists, fs)
      else if sb_freeBlocks fs < 1 then (ErrNotEnoughFreeBlocks, fs)
      else
        let (newInode, fs1) = allocateInode fs in
        if newInode = MAX_INODES then (ErrNoFreeInodes, fs1)
        else
          let ino0 = (readInode fs1 newInode)\<lparr>itype := 1, isize := 0\<rparr>;
              (newBlock, fs2) = allocateBlock fs1
          in
          if newBlock = 0 then (ErrNotEnoughFreeBlocks, deallocateInode newInode fs2)
          else
            let ino1 = ino0\<lparr>blockAddresses := (blockAddresses ino0)[0 := newBlock]\<rparr>;
                fs3 = writeInode newInode ino1 fs2;
                fs4 = initializeDirectory newInode parentInode fs3;
                (ok, fs5) = addDirectoryEntry parentInode nm newInode fs4
            in
            if \<not> ok then
              (ErrCouldNotAddDirectoryEntry, deallocateInode newInode (deallocateBlock newBlock fs5))
            else (CreatedDirectory, fs5))"

text \<open>
  \<^verbatim>\<open>cmdRmdir\<close> in its two halves. \<open>rmdir_target\<close> is the code up to the emptiness check: it
  prints an error, or settles on the parent, the name and \<^verbatim>\<open>dirInode\<close>, the inode that the
  second half releases. \<open>release_inode\<close> is the code shared with \<^verbatim>\<open>cmdRm\<close> after the
  entry is removed: it frees the direct blocks of the inode as read before the removal, the
  blocks listed in its indirect block, the indirect block and the inode.
\<close>

definition rmdir_target :: "filesystem \<Rightarrow> string \<Rightarrow> message + (u32 \<times> string \<times> u32)" where
  "rmdir_target fs dirname =
     (let (parentInode, nm) = getParentInodeAndFilename fs dirname in
      if parentInode = NOT_FOUND then Inl ErrInvalidPath
      else
        let dirInode = findDirectoryEntry fs parentInode nm in
        if dirInode = NOT_FOUND then Inl ErrDirectoryNotFound
        else if itype (readInode fs dirInode) \<noteq> 1 then Inl ErrNotADirectory
        else if length (readDirectoryEntries fs dirInode) > 2 then Inl ErrDirectoryNotEmpty
        else Inr (parentInode, nm, dirInode))"

definition release_inode :: "u32 \<Rightarrow> inode \<Rightarrow> filesystem \<Rightarrow> filesystem" where
  "release_inode inodeNum ino fs =
     (let fs1 = free_direct_nonzero ino DIRECT_BLOCKS fs;
          fs2 = (if indirectBlock ino \<noteq> 0
                 then deallocateBlock (indirectBlock ino)
                        (free_indirect_slots (indirectBlock ino) CELLS_PER_BLOCK fs1)
                 else fs1)
      in deallocateInode inodeNum fs2)"

definition cmdRmdir :: "string \<Rightarrow> filesystem \<Rightarrow> message \<times> filesystem" where
  "cmdRmdir dirname fs =
     (case rmdir_target fs dirname of
        Inl err \<Rightarrow> (err, fs)
      | Inr (parentInode, nm, dirInode) \<Rightarrow>
          (let ino = readInode fs dirInode;
               (ok, fs1) = removeDirectoryEntry parentInode nm fs
           in if \<not> ok then (ErrCouldNotRemoveDirectoryEntry, fs1)
              else (RemovedDirectory, release_inode dirInode ino fs1)))"

subsection \<open>cd\<close>

definition cmdCd :: "string \<Rightarrow> filesystem \<Rightarrow> message \<times> filesystem" where
  "cmdCd path fs =
     (if path = [] then (NoMessage, fs)
      else
        let inodeNum = getInodeFromPath fs path in
        if inodeNum = NOT_FOUND then (ErrInvalidPath, fs)
        else if itype (readInode fs inodeNum) \<noteq> 1 then (ErrNotADirectory, fs)
        else
          let p1 = (if hd path = CHR ''/'' then path
                    else if currentPath fs = ''/'' then currentPath fs @ path
                    else currentPath fs @ ''/'' @ path);
              normalizedComponents =
                fold (\<lambda>component acc.
                        if component = ''.'' then acc
                        else if component = ''..'' then (if acc \<noteq> [] then butlast acc else acc)
                        else acc @ [component])
                     (parsePath p1) [];
              p2 = fold (\<lambda>component p. if component \<noteq> [] then p @ component @ ''/'' else p)
                     normalizedComponents ''/'';
              p3 = (if length p2 > 1 \<and> last p2 = CHR ''/'' then butlast p2 else p2)
          in (NoMessage, fs\<lparr>currentInodeNumber := inodeNum, currentPath := p3\<rparr>))"

subsection \<open>cat\<close>

definition block_bytes :: "filesystem \<Rightarrow> u32 \<Rightarrow> byte list" where
  "block_bytes fs blockNum =
     concat (map (\<lambda>k. cell_bytes (rd fs (block_cell blockNum + k))) [0..<CELLS_PER_BLOCK])"

text \<open>
  The two reading loops of \<^verbatim>\<open>cmdCat\<close> have the same body; \<open>cat_loop\<close> runs it over the
  addresses of the slots in index order and returns the bytes written and \<^verbatim>\<open>remainingBytes\<close>.
\<close>

fun cat_loop :: "filesystem \<Rightarrow> u32 list \<Rightarrow> u32 \<Rightarrow> byte list \<times> u32" where
  "cat_loop fs [] remainingBytes = ([], remainingBytes)"
| "cat_loop fs (b # bs) remainingBytes =
     (if remainingBytes > 0 then
        (if b = 0 then cat_loop fs bs remainingBytes
         else
           (let bytesToRead = min remainingBytes BLOCK_SIZE;
                (out, r) = cat_loop fs bs (remainingBytes - bytesToRead)
            in (take (unat bytesToRead) (block_bytes fs b) @ out, r)))
      else ([], remainingBytes))"

definition cat_bytes :: "filesystem \<Rightarrow> inode \<Rightarrow> byte list" where
  "cat_bytes fs ino =
     (let (out1, r1) = cat_loop fs (map (\<lambda>i. blockAddresses ino ! i) [0..<DIRECT_BLOCKS]) (isize ino)
      in if indirectBlock ino \<noteq> 0 \<and> r1 > 0
         then out1 @ fst (cat_loop fs (map (indirect_slot fs (indirectBlock ino)) [0..<CELLS_PER_BLOCK]) r1)
         else out1)"

definition cmdCat :: "string \<Rightarrow> filesystem \<Rightarrow> message \<times> filesystem" where
  "cmdCat filename fs =
     (let inodeNum = getInodeFromPath fs filename in
      if inodeNum = NOT_FOUND then (ErrFileNotFound, fs)
      else
        let ino = readInode fs inodeNum in
        if itype ino \<noteq> 0 then (ErrNotAFile, fs)
        else (Contents (cat_bytes fs ino), fs))"

section \<open>Reading and writing cells\<close>

lemma rd_wr: "rd (wr a v fs) b = (if b = a then v else rd fs b)"
  by (simp add: rd_def wr_def)

lemma block_cell_small: "n < 1024 \<Longrightarrow> block_cell (of_nat n) = 256 * n"
  unfolding block_cell_def
  by (simp add: unat_word_ariths unat_of_nat take_bit_nat_eq_self)

lemma inode_cell_small: "n < 128 \<Longrightarrow> inode_cell (of_nat n) = 256 + 16 * n"
  unfolding inode_cell_def
  by (simp add: unat_word_ariths unat_of_nat take_bit_nat_eq_self)

lemma rd_memset:
  "rd (memset_block b fs) a = (if block_cell b \<le> a \<and> a < block_cell b + 256 then 0 else rd fs a)"
  by (simp add: rd_def memset_block_def)

lemma rd_wr_cells:
  "rd (wr_cells c vs fs) a = (if c \<le> a \<and> a < c + length vs then vs ! (a - c) else rd fs a)"
  by (simp add: rd_def wr_cells_def)

lemma rd_fields [simp]:
  "rd (fs\<lparr>ticks := t\<rparr>) a = rd fs a"
  "rd (fs\<lparr>currentInodeNumber := i\<rparr>) a = rd fs a"
  "rd (fs\<lparr>currentPath := p\<rparr>) a = rd fs a"
  by (simp_all add: rd_def)

lemma wr_fields [simp]:
  "ticks (wr a v fs) = ticks fs" "clock (wr a v fs) = clock fs"
  "currentInodeNumber (wr a v fs) = currentInodeNumber fs" "currentPath (wr a v fs) = currentPath fs"
  "ticks (memset_block b fs) = ticks fs" "clock (memset_block b fs) = clock fs"
  "currentInodeNumber (memset_block b fs) = currentInodeNumber fs"
  "currentPath (memset_block b fs) = currentPath fs"
  "ticks (wr_cells c vs fs) = ticks fs" "clock (wr_cells c vs fs) = clock fs"
  "currentInodeNumber (wr_cells c vs fs) = currentInodeNumber fs"
  "currentPath (wr_cells c vs fs) = currentPath fs"
  by (simp_all add: wr_def memset_block_def wr_cells_def)

lemma fold_wr_fields [simp]:
  "currentInodeNumber (fold (\<lambda>i. wr (f i) (g i)) xs fs) = currentInodeNumber fs"
  "currentPath (fold (\<lambda>i. wr (f i) (g i)) xs fs) = currentPath fs"
  "clock (fold (\<lambda>i. wr (f i) (g i)) xs fs) = clock fs"
  "ticks (fold (\<lambda>i. wr (f i) (g i)) xs fs) = ticks fs"
  by (induction xs arbitrary: fs; simp)+

lemma free_block_links:
  "n \<le> 1023 \<Longrightarrow> rd (fold (\<lambda>i. wr (block_cell (of_nat i)) (of_nat i + 1)) [9..<n] fs) a =
     (if 2304 \<le> a \<and> a < 256 * n \<and> a mod 256 = 0 then of_nat (a div 256) + 1 else rd fs a)"
proof (induction n)
  case 0 then show ?case by simp
next
  case (Suc n)
  let ?f = "\<lambda>i. wr (block_cell (of_nat i)) (of_nat i + 1)"
  show ?case
  proof (cases "9 \<le> n")
    case True
    then have l: "[9..<Suc n] = [9..<n] @ [n]" by simp
    have c: "block_cell (of_nat n) = 256 * n" using Suc.prems by (simp add: block_cell_small)
    have ih: "rd (fold ?f [9..<n] fs) a =
      (if 2304 \<le> a \<and> a < 256 * n \<and> a mod 256 = 0 then of_nat (a div 256) + 1 else rd fs a)"
      using Suc by simp
    have st: "rd (fold ?f [9..<Suc n] fs) b =
       (if b = 256 * n then of_nat n + 1 else rd (fold ?f [9..<n] fs) b)" for b
      unfolding l by (simp only: fold_append fold.simps comp_def id_def rd_wr c)
    show ?thesis
    proof (cases "a = 256 * n")
      case eq: True
      show ?thesis unfolding eq st using True by simp
    next
      case False
      have "a < 256 * n" if "a mod 256 = 0" "a < 256 * Suc n"
      proof -
        from that(1) obtain k where k: "a = 256 * k" by (auto simp: mod_eq_0_iff_dvd)
        with that(2) False show ?thesis by simp
      qed
      then have "(2304 \<le> a \<and> a < 256 * Suc n \<and> a mod 256 = 0) = (2304 \<le> a \<and> a < 256 * n \<and> a mod 256 = 0)"
        by auto
      then show ?thesis unfolding st ih using False by simp
    qed
  next
    case False then show ?thesis by auto
  qed
qed

lemma free_inode_links:
  "n \<le> 127 \<Longrightarrow> rd (fold (\<lambda>i. wr (inode_cell (of_nat i) + 14) (of_nat i + 1)) [Suc 0..<n] fs) a =
     (if 286 \<le> a \<and> a < 256 + 16 * n \<and> a mod 16 = 14 then of_nat ((a - 256) div 16) + 1 else rd fs a)"
proof (induction n)
  case 0 then show ?case by auto
next
  case (Suc n)
  let ?f = "\<lambda>i. wr (inode_cell (of_nat i) + 14) (of_nat i + 1)"
  show ?case
  proof (cases "1 \<le> n")
    case True
    then have l: "[Suc 0..<Suc n] = [Suc 0..<n] @ [n]" by simp
    have c: "inode_cell (of_nat n) = 256 + 16 * n" using Suc.prems by (simp add: inode_cell_small)
    have ih: "rd (fold ?f [Suc 0..<n] fs) a =
     (if 286 \<le> a \<and> a < 256 + 16 * n \<and> a mod 16 = 14 then of_nat ((a - 256) div 16) + 1 else rd fs a)"
      using Suc by simp
    have st: "rd (fold ?f [Suc 0..<Suc n] fs) b = (if b = 270 + 16 * n then of_nat n + 1 else rd (fold ?f [Suc 0..<n] fs) b)" for b
      unfolding l by (simp only: fold_append fold.simps comp_def id_def rd_wr c) simp
    show ?thesis
    proof (cases "a = 270 + 16 * n")
      case eq: True
      have "(270 + 16 * n - 256) div 16 = n" "(270 + 16 * n) mod 16 = 14" by simp_all
      then show ?thesis unfolding eq st using True by simp
    next
      case False
      have "a < 256 + 16 * n" if "a mod 16 = 14" "a < 256 + 16 * Suc n"
      proof -
        define k where "k = a div 16"
        have "a = 16 * k + 14" unfolding k_def using that(1) by (metis mult_div_mod_eq)
        with that(2) False show ?thesis by arith
      qed
      then have "(286 \<le> a \<and> a < 256 + 16 * Suc n \<and> a mod 16 = 14) = (286 \<le> a \<and> a < 256 + 16 * n \<and> a mod 16 = 14)"
        by auto
      then show ?thesis unfolding st ih using False by simp
    qed
  next
    case False then show ?thesis by auto
  qed
qed



lemmas cell_num = block_cell_def[of "numeral n"] block_cell_def[of 0] block_cell_def [of 1]
  inode_cell_def[of "numeral n"] inode_cell_def[of 0] inode_cell_def [of 1] for n

lemma rd_make:
  "rd \<lparr>memory = m, currentInodeNumber = i, currentPath = p, clock = c, ticks = t\<rparr> a = m a"
  by (simp add: rd_def)

text \<open>The formatted image, cell by cell.\<close>

lemma rd_format_image:
  "rd (format_image clk) a =
     (if a = 0 then 0x12345678 else if a = 1 then 1024 else if a = 2 then 1024
      else if a = 3 then 1015 else if a = 4 then 128 else if a = 5 then 127
      else if a = 6 then 9 else if a = 7 then 1
      else if 286 \<le> a \<and> a < 2288 \<and> a mod 16 = 14 then of_nat ((a - 256) div 16) + 1
      else if 2304 \<le> a \<and> a < 261888 \<and> a mod 256 = 0 then of_nat (a div 256) + 1
      else 0)"
  by (simp add: format_image_def free_block_links free_inode_links rd_wr rd_make cell_num Let_def
           del: upt_rec_numeral)

lemma format_image_fields [simp]:
  "currentInodeNumber (format_image clk) = 0"
  "currentPath (format_image clk) = []"
  "clock (format_image clk) = clk"
  "ticks (format_image clk) = 0"
  by (simp_all add: format_image_def Let_def del: upt_rec_numeral)

text \<open>Rules that run the model on concrete states.\<close>

lemma getlines_Nil: "getlines [] = []"
  by (simp add: getlines.simps)

lemma getlines_Cons:
  "getlines (c # s) =
     (if c = CHR ''/'' then [] # getlines s
      else (case getlines s of [] \<Rightarrow> [[c]] | x # xs \<Rightarrow> (c # x) # xs))"
proof (cases "c = CHR ''/''")
  case True
  then show ?thesis by (subst getlines.simps) simp
next
  case False
  show ?thesis
  proof (cases s)
    case Nil
    then show ?thesis using False by (subst getlines.simps) (simp add: getlines_Nil)
  next
    case (Cons d t)
    have a: "getlines (c # s) =
        (c # takeWhile (\<lambda>c. c \<noteq> CHR ''/'') s) #
        (case dropWhile (\<lambda>c. c \<noteq> CHR ''/'') s of [] \<Rightarrow> [] | _ # r \<Rightarrow> getlines r)"
      using False by (subst getlines.simps) simp
    have b: "getlines s =
        takeWhile (\<lambda>c. c \<noteq> CHR ''/'') s #
        (case dropWhile (\<lambda>c. c \<noteq> CHR ''/'') s of [] \<Rightarrow> [] | _ # r \<Rightarrow> getlines r)"
      using Cons by (subst getlines.simps) simp
    show ?thesis unfolding a using False by (simp add: b)
  qed
qed

lemma upt_7: "[0..<7] = [0,1,2,3,4,5,6::nat]" by code_simp
lemma upt_10: "[0..<10] = [0,1,2,3,4,5,6,7,8,9::nat]" by code_simp
lemma upt_32: "[0..<32] = [0,1,2,3,4,5,6,7,8,9,10,11,12,13,14,15,16,17,18,19,20,21,22,23,24,25,26,27,28,29,30,31::nat]" by code_simp

section \<open>Claims\<close>

text \<open>
  C10. change-dir invoked with the empty path string is a no-op: it returns at once, prints
  no error, and leaves the whole state (in particular the current-directory inode number and
  the current-path string) as it was.
\<close>

theorem C10_cd_empty_path_is_noop:
  "cmdCd [] fs = (NoMessage, fs) \<and>
   currentInodeNumber (snd (cmdCd [] fs)) = currentInodeNumber fs \<and>
   currentPath (snd (cmdCd [] fs)) = currentPath fs"
  by (simp add: cmdCd_def)

end
